theory Spec2Isabelle
  imports Main
begin

section \<open>The booking backend of the dental chatbot (backend/server.js)\<close>

text \<open>
  The two POST handlers of \<^verbatim>\<open>backend/server.js\<close> and the three storage helpers
  they call are embedded as functions on an explicit database state.  The handlers are
  taken after the \<^verbatim>\<open>auth\<close> middleware has accepted the request, so they receive the
  \<^verbatim>\<open>sub\<close> of the decoded token (\<^verbatim>\<open>req.user?.sub\<close>, possibly absent) and the parsed JSON
  body.  Body fields have the types the client in \<^verbatim>\<open>frontend/src/App.jsx\<close> sends:
  \<^verbatim>\<open>message\<close>, \<^verbatim>\<open>session_id\<close> and \<^verbatim>\<open>scheduled_at\<close> are strings, \<^verbatim>\<open>confirm\<close> is a boolean, and
  each of them may be absent (\<open>None\<close>).

  Every statement sent through \<^verbatim>\<open>query\<close> of \<^verbatim>\<open>backend/db.js\<close> runs on the pool and is
  committed by itself.  The tables follow the schema of the README (step 4); the
  \<^verbatim>\<open>created_at\<close> columns, filled by \<^verbatim>\<open>NOW()\<close>, and the \<^verbatim>\<open>id\<close> of \<^verbatim>\<open>chat_messages\<close> are left out.
  Rows receive their \<^verbatim>\<open>id\<close> from the table's sequence only, and the storage is reachable:
  the errors of a statement are those the schema's constraints, the casts and the
  encoding of its text parameters raise.  The subject is the \<^verbatim>\<open>sub\<close> of a token that carries
  the backend's own signature, and the one issuer, \<^verbatim>\<open>POST /api/chatbot/token\<close>, signs
  \<^verbatim>\<open>user_1\<close>; the body is whatever JSON the caller sends.
\<close>

subsection \<open>JavaScript truthiness on optional strings\<close>

definition truthy :: "string option \<Rightarrow> bool" where
  "truthy v = (case v of None \<Rightarrow> False | Some s \<Rightarrow> s \<noteq> [])"

text \<open>\<^verbatim>\<open>a || b\<close>: the left operand when it is truthy, the right one otherwise.\<close>

definition js_or :: "string option \<Rightarrow> string option \<Rightarrow> string option" where
  "js_or a b = (if truthy a then a else b)"

text \<open>\<^verbatim>\<open>a || 'literal'\<close>: the result is always a string.\<close>

definition js_or_str :: "string option \<Rightarrow> string \<Rightarrow> string" where
  "js_or_str a s = (case a of None \<Rightarrow> s | Some x \<Rightarrow> if x = [] then s else x)"

subsection \<open>Tables\<close>

record user_row =
  u_id :: nat
  u_email :: string
  u_password_hash :: string
  u_name :: string

record session_row =
  s_id :: nat
  s_user_id :: nat
  s_session_token :: string

text \<open>
  The \<^verbatim>\<open>meta\<close> objects that server.js writes: the default \<^verbatim>\<open>{}\<close> of \<^verbatim>\<open>logMessage\<close>,
  \<^verbatim>\<open>{appointment_candidate, intent, needs_confirmation}\<close>, \<^verbatim>\<open>{intent}\<close> and
  \<^verbatim>\<open>{appointment_id, status}\<close>.
\<close>

datatype meta =
    meta_empty
  | meta_candidate string "string option" bool
  | meta_intent string
  | meta_appointment nat string

record message_row =
  m_user_id :: nat
  m_session_token :: string
  m_role :: string
  m_content :: string
  m_meta :: meta

record appointment_row =
  a_id :: nat
  a_user_id :: nat
  a_scheduled_at :: int
  a_status :: string
  a_notes :: string

text \<open>Each \<^verbatim>\<open>*_id_seq\<close> holds the value its sequence hands out next.\<close>

record db =
  users :: "user_row list"
  users_id_seq :: nat
  chat_sessions :: "session_row list"
  chat_sessions_id_seq :: nat
  chat_messages :: "message_row list"
  appointments :: "appointment_row list"
  appointments_id_seq :: nat

datatype db_error =
    unique_violation
  | not_null_violation
  | invalid_datetime_format
  | invalid_byte_sequence
  | unsupported_unicode_escape

text \<open>
  PostgreSQL has no text value with a zero byte in it: a text parameter that contains
  U+0000 makes the statement raise (\<^verbatim>\<open>invalid byte sequence for encoding "UTF8": 0x00\<close>)
  before it runs.
\<close>

definition pg_text :: "string \<Rightarrow> bool" where
  "pg_text s = (CHR 0x00 \<notin> set s)"

text \<open>
  A \<^verbatim>\<open>meta\<close> object reaches the \<^verbatim>\<open>JSONB\<close> column as the text of \<^verbatim>\<open>JSON.stringify\<close>, where
  U+0000 is the escape \<^verbatim>\<open>\u0000\<close>; \<^verbatim>\<open>JSONB\<close> refuses that escape.
\<close>

fun pg_jsonb :: "meta \<Rightarrow> bool" where
  "pg_jsonb meta_empty = True"
| "pg_jsonb (meta_candidate c i n) = (pg_text c \<and> (case i of None \<Rightarrow> True | Some x \<Rightarrow> pg_text x))"
| "pg_jsonb (meta_intent i) = pg_text i"
| "pg_jsonb (meta_appointment n s) = pg_text s"

subsection \<open>The collaborators outside the repository\<close>

text \<open>
  The JSON answer of the Python service, as far as server.js reads it: the four fields
  at the top level and the same four under \<^verbatim>\<open>data\<close>.
\<close>

record sim_fields =
  reply :: "string option"
  appointment_candidate :: "string option"
  intent :: "string option"
  needs_confirmation :: "bool option"

record sim_data = sim_fields +
  data :: "sim_fields option"

text \<open>
  What \<^verbatim>\<open>fetch\<close> followed by \<^verbatim>\<open>r.json()\<close> gives: the fetch rejects (service unreachable,
  timed out), the body is not JSON, or the body parses; a parsed \<^verbatim>\<open>null\<close> is \<open>None\<close>.
\<close>

datatype fetch_result = fetch_rejected | body_not_json | json_body "sim_data option"

text \<open>
  \<open>Date_parse\<close> is JavaScript's \<^verbatim>\<open>Date.parse\<close> (\<open>None\<close> for \<^verbatim>\<open>NaN\<close>), \<open>pg_timestamp\<close> is
  PostgreSQL's reading of a text parameter as a \<^verbatim>\<open>TIMESTAMP\<close> (\<open>None\<close> when it raises), and
  \<open>simulate\<close> is the call of \<^verbatim>\<open>POST /simulate\<close> with message, user_id and session_id.
\<close>

record runtime =
  Date_parse :: "string \<Rightarrow> int option"
  pg_timestamp :: "string \<Rightarrow> int option"
  simulate :: "string \<Rightarrow> string \<Rightarrow> string option \<Rightarrow> fetch_result"

subsection \<open>Responses\<close>

datatype payload =
    error_only string
  | failure string string
  | declined
  | confirmed appointment_row
  | reply_data "sim_data option"

type_synonym response = "nat \<times> payload"

subsection \<open>DB helpers\<close>

text \<open>
  \<^verbatim>\<open>INSERT INTO users ... ON CONFLICT (email) DO UPDATE SET name=EXCLUDED.name RETURNING id\<close>.
  The sequence advances whether or not the email is already there.
\<close>

definition upsertUser :: "db \<Rightarrow> string \<Rightarrow> db \<times> nat" where
  "upsertUser d sub =
     (let email = sub @ ''@demo.local'';
          name = ''Demo User'';
          d1 = d\<lparr>users_id_seq := Suc (users_id_seq d)\<rparr>
      in case find (\<lambda>u. u_email u = email) (users d) of
           Some u \<Rightarrow>
             (d1\<lparr>users := map (\<lambda>r. if u_email r = email then r\<lparr>u_name := name\<rparr> else r) (users d)\<rparr>,
              u_id u)
         | None \<Rightarrow>
             (d1\<lparr>users := users d @
                   [\<lparr>u_id = users_id_seq d, u_email = email,
                     u_password_hash = ''hash_demo'', u_name = name\<rparr>]\<rparr>,
              users_id_seq d))"

text \<open>
  \<^verbatim>\<open>SELECT id FROM chat_sessions WHERE session_token=$1\<close>, then the insert when no row
  came back.  The lookup has no \<^verbatim>\<open>user_id\<close> in it; \<^verbatim>\<open>found.rows[0]\<close> is the oldest row with
  the token.  A falsy token returns \<^verbatim>\<open>null\<close> without a statement; a token with a zero byte
  makes the \<^verbatim>\<open>SELECT\<close> raise.
\<close>

definition ensureSession ::
  "db \<Rightarrow> nat \<Rightarrow> string option \<Rightarrow> db_error + (db \<times> nat option)" where
  "ensureSession d userId sessionToken =
     (case sessionToken of
        None \<Rightarrow> Inr (d, None)
      | Some t \<Rightarrow>
          if t = [] then Inr (d, None)
          else if \<not> pg_text t then Inl invalid_byte_sequence
          else (case find (\<lambda>s. s_session_token s = t) (chat_sessions d) of
                  Some s \<Rightarrow> Inr (d, Some (s_id s))
                | None \<Rightarrow>
                    Inr (d\<lparr>chat_sessions := chat_sessions d @
                              [\<lparr>s_id = chat_sessions_id_seq d, s_user_id = userId,
                                s_session_token = t\<rparr>],
                           chat_sessions_id_seq := Suc (chat_sessions_id_seq d)\<rparr>,
                         Some (chat_sessions_id_seq d))))"

text \<open>
  \<^verbatim>\<open>INSERT INTO chat_messages (user_id, session_token, role, content, meta)\<close>.  The
  parameters are read first: a zero byte in the token, the role or the content, or the
  escape of one in \<^verbatim>\<open>meta\<close>, makes the statement raise.  \<^verbatim>\<open>chat_messages.session_token\<close> is
  \<^verbatim>\<open>NOT NULL\<close>: an absent token reaches the statement as \<^verbatim>\<open>NULL\<close> and the insert raises.
\<close>

definition logMessage ::
  "db \<Rightarrow> nat \<Rightarrow> string option \<Rightarrow> string \<Rightarrow> string \<Rightarrow> meta \<Rightarrow> db_error + db" where
  "logMessage d userId sessionToken role content meta =
     (if \<not> (case sessionToken of None \<Rightarrow> True | Some t \<Rightarrow> pg_text t) \<or>
         \<not> pg_text role \<or> \<not> pg_text content
      then Inl invalid_byte_sequence
      else if \<not> pg_jsonb meta then Inl unsupported_unicode_escape
      else (case sessionToken of
              None \<Rightarrow> Inl not_null_violation
            | Some t \<Rightarrow>
                Inr (d\<lparr>chat_messages := chat_messages d @
                       [\<lparr>m_user_id = userId, m_session_token = t, m_role = role,
                         m_content = content, m_meta = meta\<rparr>]\<rparr>)))"

subsection \<open>The statements of the confirm handler\<close>

text \<open>
  \<^verbatim>\<open>SELECT 1 FROM appointments WHERE scheduled_at = $1 AND status = 'confirmed' LIMIT 1\<close>;
  the result is the \<^verbatim>\<open>rowCount\<close>.
\<close>

definition select_conflict :: "runtime \<Rightarrow> db \<Rightarrow> string \<Rightarrow> db_error + nat" where
  "select_conflict rt d scheduled_at =
     (case pg_timestamp rt scheduled_at of
        None \<Rightarrow> Inl invalid_datetime_format
      | Some ts \<Rightarrow>
          Inr (length (take 1 (filter (\<lambda>a. a_scheduled_at a = ts \<and> a_status a = ''confirmed'')
                                 (appointments d)))))"

text \<open>
  \<^verbatim>\<open>INSERT INTO appointments (user_id, scheduled_at, status, notes) VALUES ($1, $2,
  'confirmed', 'Booked via chatbot') RETURNING ...\<close> under the unique index
  \<^verbatim>\<open>uniq_appointments_time ON appointments (scheduled_at) WHERE status = 'confirmed'\<close>.
  A rejected row has already drawn its id from the sequence.
\<close>

definition insert_appointment ::
  "runtime \<Rightarrow> db \<Rightarrow> nat \<Rightarrow> string \<Rightarrow> db \<times> (db_error + appointment_row)" where
  "insert_appointment rt d userId scheduled_at =
     (case pg_timestamp rt scheduled_at of
        None \<Rightarrow> (d, Inl invalid_datetime_format)
      | Some ts \<Rightarrow>
          let row = \<lparr>a_id = appointments_id_seq d, a_user_id = userId, a_scheduled_at = ts,
                     a_status = ''confirmed'', a_notes = ''Booked via chatbot''\<rparr>;
              d1 = d\<lparr>appointments_id_seq := Suc (appointments_id_seq d)\<rparr>
          in if \<exists>a \<in> set (appointments d). a_scheduled_at a = ts \<and> a_status a = ''confirmed''
             then (d1, Inl unique_violation)
             else (d1\<lparr>appointments := appointments d @ [row]\<rparr>, Inr row))"

subsection \<open>Request bodies\<close>

record body =
  message :: "string option"
  session_id :: "string option"
  scheduled_at :: "string option"
  confirm :: "bool option"

subsection \<open>POST /api/chatbot/message\<close>

text \<open>\<^verbatim>\<open>data?.f || data?.data?.f\<close> for a string field \<open>f\<close>.\<close>

definition either_level :: "(sim_fields \<Rightarrow> string option) \<Rightarrow> sim_data option \<Rightarrow> string option" where
  "either_level f dat =
     (case dat of
        None \<Rightarrow> None
      | Some x \<Rightarrow> js_or (f (sim_fields.truncate x))
                        (case data x of None \<Rightarrow> None | Some y \<Rightarrow> f y))"

text \<open>\<^verbatim>\<open>data?.needs_confirmation ?? data?.data?.needs_confirmation ?? false\<close>.\<close>

definition needs_confirmation_of :: "sim_data option \<Rightarrow> bool" where
  "needs_confirmation_of dat =
     (case dat of
        None \<Rightarrow> False
      | Some x \<Rightarrow>
          (case needs_confirmation x of
             Some v \<Rightarrow> v
           | None \<Rightarrow>
               (case data x of
                  None \<Rightarrow> False
                | Some y \<Rightarrow> (case needs_confirmation y of Some v \<Rightarrow> v | None \<Rightarrow> False))))"

definition assistant_meta :: "sim_data option \<Rightarrow> meta" where
  "assistant_meta dat =
     (case either_level appointment_candidate dat of
        None \<Rightarrow> meta_intent (js_or_str (either_level intent dat) ''chat'')
      | Some c \<Rightarrow>
          if c = [] then meta_intent (js_or_str (either_level intent dat) ''chat'')
          else meta_candidate c (either_level intent dat) (needs_confirmation_of dat))"

definition python_failed :: response where
  "python_failed = (500, error_only ''failed to reach python service'')"

definition post_message :: "runtime \<Rightarrow> db \<Rightarrow> string option \<Rightarrow> body \<Rightarrow> db \<times> response" where
  "post_message rt d sub b =
     (case message b of
        None \<Rightarrow> (d, (400, error_only ''missing message''))
      | Some msg \<Rightarrow>
          if msg = [] then (d, (400, error_only ''missing message''))
          else
            (let (d1, userId) = upsertUser d (js_or_str sub ''user_1'')
             in (case ensureSession d1 userId (session_id b) of
                   Inl e \<Rightarrow> (d1, python_failed)
                 | Inr (d2, sid) \<Rightarrow>
                     (case logMessage d2 userId (session_id b) ''user'' msg meta_empty of
                        Inl e \<Rightarrow> (d2, python_failed)
                      | Inr d3 \<Rightarrow>
                          (case simulate rt msg (js_or_str sub ''user_1'') (session_id b) of
                             fetch_rejected \<Rightarrow> (d3, python_failed)
                           | body_not_json \<Rightarrow> (d3, python_failed)
                           | json_body dat \<Rightarrow>
                               (case logMessage d3 userId (session_id b) ''assistant''
                                       (js_or_str (either_level reply dat) [])
                                       (assistant_meta dat) of
                                  Inl e \<Rightarrow> (d3, python_failed)
                                | Inr d4 \<Rightarrow> (d4, (200, reply_data dat))))))))"

subsection \<open>POST /api/chatbot/confirm\<close>

text \<open>
  The conflict check and the insert are two statements, each committed by itself;
  \<open>between\<close> is what other requests commit after the check and before the insert
  (\<open>id\<close> when the request runs alone).  The handler's outer \<^verbatim>\<open>catch\<close> turns every error
  of a statement into the 500 answer; the inner \<^verbatim>\<open>try { logMessage } catch {}\<close> drops the
  error of the confirmation entry.
\<close>

definition bad_request :: "string \<Rightarrow> response" where
  "bad_request m = (400, failure ''bad_request'' m)"

definition conflict :: response where
  "conflict = (409, failure ''conflict'' ''That time is already booked. Please pick another slot.'')"

definition server_error :: response where
  "server_error = (500, failure ''server_error'' ''failed to confirm appointment'')"

definition post_confirm ::
  "runtime \<Rightarrow> (db \<Rightarrow> db) \<Rightarrow> db \<Rightarrow> string option \<Rightarrow> body \<Rightarrow> db \<times> response" where
  "post_confirm rt between d sub b =
     (if \<not> truthy (session_id b) \<or> \<not> truthy (scheduled_at b)
      then (d, bad_request ''missing session_id or scheduled_at'')
      else
        let at = the (scheduled_at b) in
        case Date_parse rt at of
          None \<Rightarrow> (d, bad_request ''scheduled_at must be ISO8601'')
        | Some ts \<Rightarrow>
            let (d1, userId) = upsertUser d (js_or_str sub ''user_1'')
            in (case ensureSession d1 userId (session_id b) of
                  Inl e \<Rightarrow> (d1, server_error)
                | Inr (d2, sid) \<Rightarrow>
                    if confirm b \<noteq> Some True then (d2, (200, declined))
                    else
                      (case select_conflict rt d2 at of
                         Inl e \<Rightarrow> (d2, server_error)
                       | Inr rowCount \<Rightarrow>
                           if rowCount > 0 then (d2, conflict)
                           else
                             (case insert_appointment rt (between d2) userId at of
                                (d3, Inl e) \<Rightarrow> (d3, server_error)
                              | (d3, Inr row) \<Rightarrow>
                                  (case logMessage d3 userId (session_id b) ''assistant''
                                          (''Confirmed your appointment for '' @ at @ ''.'')
                                          (meta_appointment (a_id row) ''confirmed'') of
                                     Inl e \<Rightarrow> (d3, (200, confirmed row))
                                   | Inr d4 \<Rightarrow> (d4, (200, confirmed row)))))))"

subsection \<open>The booking invariant and runs of confirm calls\<close>





subsection \<open>A concrete runtime and concrete states\<close>

text \<open>
  A runtime that knows one timestamp: \<^verbatim>\<open>Date.parse\<close> gives its milliseconds since 1970,
  the cast to \<^verbatim>\<open>TIMESTAMP\<close> its microseconds since 2000; the Python service is down.
\<close>

definition demo_Date_parse :: "string \<Rightarrow> int option" where
  "demo_Date_parse s = (if s = ''2025-06-02T10:00:00Z'' then Some 1748858400000 else None)"

definition demo_pg_timestamp :: "string \<Rightarrow> int option" where
  "demo_pg_timestamp s = (if s = ''2025-06-02T10:00:00Z'' then Some 802173600000000 else None)"

definition service_down :: "string \<Rightarrow> string \<Rightarrow> string option \<Rightarrow> fetch_result" where
  "service_down msg user_id sid = fetch_rejected"

definition demo_runtime :: runtime where
  "demo_runtime =
     \<lparr>Date_parse = demo_Date_parse, pg_timestamp = demo_pg_timestamp, simulate = service_down\<rparr>"

text \<open>
  A runtime for \<^verbatim>\<open>2025-02-30T10:00:00Z\<close>: \<^verbatim>\<open>Date.parse\<close> of Node.js rolls the 30th of February
  over to the 2nd of March and gives that day's milliseconds; PostgreSQL raises
  \<^verbatim>\<open>date/time field value out of range\<close>.
\<close>

definition lenient_Date_parse :: "string \<Rightarrow> int option" where
  "lenient_Date_parse s = (if s = ''2025-02-30T10:00:00Z'' then Some 1740909600000 else None)"

definition strict_pg_timestamp :: "string \<Rightarrow> int option" where
  "strict_pg_timestamp s = None"

definition lenient_runtime :: runtime where
  "lenient_runtime =
     \<lparr>Date_parse = lenient_Date_parse, pg_timestamp = strict_pg_timestamp,
      simulate = service_down\<rparr>"

definition february_30_request :: body where
  "february_30_request =
     \<lparr>message = None, session_id = Some ''tok'',
      scheduled_at = Some ''2025-02-30T10:00:00Z'', confirm = Some True\<rparr>"



definition fresh_db :: db where
  "fresh_db =
     \<lparr>users = [], users_id_seq = 1, chat_sessions = [], chat_sessions_id_seq = 1,
      chat_messages = [], appointments = [], appointments_id_seq = 1\<rparr>"

text \<open>Another request books the same slot for user 7 while this one is under way.\<close>

definition rival_booking :: "db \<Rightarrow> db" where
  "rival_booking d = fst (insert_appointment demo_runtime d 7 ''2025-06-02T10:00:00Z'')"

text \<open>A state in which user 1 owns the session with token \<^verbatim>\<open>tok\<close>.\<close>

definition alice_db :: db where
  "alice_db =
     \<lparr>users = [\<lparr>u_id = 1, u_email = ''alice@demo.local'', u_password_hash = ''hash_demo'',
                 u_name = ''Demo User''\<rparr>,
               \<lparr>u_id = 2, u_email = ''bob@demo.local'', u_password_hash = ''hash_demo'',
                 u_name = ''Demo User''\<rparr>],
      users_id_seq = 3,
      chat_sessions = [\<lparr>s_id = 1, s_user_id = 1, s_session_token = ''tok''\<rparr>],
      chat_sessions_id_seq = 2,
      chat_messages = [], appointments = [], appointments_id_seq = 1\<rparr>"

definition confirm_request :: body where
  "confirm_request =
     \<lparr>message = None, session_id = Some ''tok'',
      scheduled_at = Some ''2025-06-02T10:00:00Z'', confirm = Some True\<rparr>"


definition hello_request :: body where
  "hello_request =
     \<lparr>message = Some ''hello'', session_id = Some ''tok'', scheduled_at = None, confirm = None\<rparr>"


text \<open>The fresh database after \<^verbatim>\<open>user_1\<close> has been upserted and has opened session \<^verbatim>\<open>tok\<close>.\<close>

definition user1_db :: db where
  "user1_db =
     \<lparr>users = [\<lparr>u_id = 1, u_email = ''user_1@demo.local'', u_password_hash = ''hash_demo'',
                 u_name = ''Demo User''\<rparr>],
      users_id_seq = 2,
      chat_sessions = [\<lparr>s_id = 1, s_user_id = 1, s_session_token = ''tok''\<rparr>],
      chat_sessions_id_seq = 2,
      chat_messages = [], appointments = [], appointments_id_seq = 1\<rparr>"

text \<open>The same state after the rival has booked the slot and the own insert was rejected.\<close>

definition raced_db :: db where
  "raced_db =
     user1_db\<lparr>appointments :=
                 [\<lparr>a_id = 1, a_user_id = 7, a_scheduled_at = 802173600000000,
                   a_status = ''confirmed'', a_notes = ''Booked via chatbot''\<rparr>],
               appointments_id_seq := 3\<rparr>"



section \<open>Properties\<close>

subsection \<open>What the helpers leave alone\<close>

lemma upsertUser_frame:
  "appointments (fst (upsertUser d sub)) = appointments d"
  "chat_messages (fst (upsertUser d sub)) = chat_messages d"
  "chat_sessions (fst (upsertUser d sub)) = chat_sessions d"
  "users_id_seq (fst (upsertUser d sub)) = Suc (users_id_seq d)"
  by (simp_all add: upsertUser_def Let_def split: option.split)

lemma ensureSession_frame:
  assumes "ensureSession d uid tok = Inr (d2, sid)"
  shows "appointments d2 = appointments d" and "chat_messages d2 = chat_messages d"
    and "users d2 = users d" and "users_id_seq d2 = users_id_seq d"
  using assms by (auto simp: ensureSession_def split: option.splits if_splits)




lemma checked_frame:
  assumes "upsertUser d u = (d1, userId)" and "ensureSession d1 userId tok = Inr (d2, sid)"
  shows "appointments d2 = appointments d" and "chat_messages d2 = chat_messages d"
    and "users_id_seq d2 = Suc (users_id_seq d)"
proof -
  have "d1 = fst (upsertUser d u)"
    using assms(1) by simp
  then show "appointments d2 = appointments d" and "chat_messages d2 = chat_messages d"
    and "users_id_seq d2 = Suc (users_id_seq d)"
    using ensureSession_frame[OF assms(2)] by (simp_all add: upsertUser_frame)
qed

subsection \<open>Rows of the users and chat_sessions tables\<close>








lemma upsertUser_row:
  "\<exists>u \<in> set (users (fst (upsertUser d sub))).
      u_email u = sub @ ''@demo.local'' \<and> u_id u = snd (upsertUser d sub)"
proof (cases "find (\<lambda>u. u_email u = sub @ ''@demo.local'') (users d)")
  case None
  then show ?thesis by (simp add: upsertUser_def Let_def)
next
  case (Some u)
  then have "u \<in> set (users d)" "u_email u = sub @ ''@demo.local''"
    by (auto simp: find_Some_iff)
  then have "u\<lparr>u_name := ''Demo User''\<rparr> \<in> set (users (fst (upsertUser d sub)))"
    using Some by (force simp: upsertUser_def Let_def)
  then show ?thesis using Some \<open>u_email u = _\<close>
    by (intro bexI[where x = "u\<lparr>u_name := ''Demo User''\<rparr>"]) (simp_all add: upsertUser_def Let_def)
qed

lemma ensureSession_row:
  "t \<noteq> [] \<Longrightarrow> ensureSession d uid (Some t) = Inr (d2, sid) \<Longrightarrow>
     \<exists>s \<in> set (chat_sessions d2). s_session_token s = t \<and> sid = Some (s_id s)"
  by (auto simp: ensureSession_def find_Some_iff split: option.splits if_splits)

lemma checked_rows:
  assumes "upsertUser d u = (d1, userId)" and "ensureSession d1 userId (Some tok) = Inr (d2, sid)"
    and "tok \<noteq> []"
  shows "\<exists>r \<in> set (users d2). u_email r = u @ ''@demo.local'' \<and> u_id r = userId"
    and "\<exists>s \<in> set (chat_sessions d2). s_session_token s = tok \<and> sid = Some (s_id s)"
proof -
  show "\<exists>r \<in> set (users d2). u_email r = u @ ''@demo.local'' \<and> u_id r = userId"
    using upsertUser_row[of d u] assms(1) ensureSession_frame(3)[OF assms(2)] by simp
  show "\<exists>s \<in> set (chat_sessions d2). s_session_token s = tok \<and> sid = Some (s_id s)"
    by (rule ensureSession_row[OF assms(3,2)])
qed

subsection \<open>The confirm handler past its validation\<close>


lemma post_confirm_checked:
  assumes "truthy (session_id b)" and "scheduled_at b = Some at" and "at \<noteq> []"
    and "Date_parse rt at = Some ms"
    and "upsertUser d (js_or_str sub ''user_1'') = (d1, userId)"
    and "ensureSession d1 userId (session_id b) = Inr (d2, sid)"
  shows "post_confirm rt between d sub b =
     (if confirm b \<noteq> Some True then (d2, (200, declined))
      else case select_conflict rt d2 at of
             Inl e \<Rightarrow> (d2, server_error)
           | Inr rowCount \<Rightarrow>
               if rowCount > 0 then (d2, conflict)
               else (case insert_appointment rt (between d2) userId at of
                       (d3, Inl e) \<Rightarrow> (d3, server_error)
                     | (d3, Inr row) \<Rightarrow>
                         (case logMessage d3 userId (session_id b) ''assistant''
                                 (''Confirmed your appointment for '' @ at @ ''.'')
                                 (meta_appointment (a_id row) ''confirmed'') of
                            Inl e \<Rightarrow> (d3, (200, confirmed row))
                          | Inr d4 \<Rightarrow> (d4, (200, confirmed row)))))"
  using assms by (simp add: post_confirm_def truthy_def)


subsection \<open>The invariant along the statements\<close>








subsection \<open>What the validation of the confirm handler catches\<close>

text \<open>
  A \<^verbatim>\<open>scheduled_at\<close> that \<^verbatim>\<open>Date.parse\<close> refuses is answered with the 400 \<^verbatim>\<open>bad_request\<close> before
  any statement runs.
\<close>

lemma confirm_unparseable:
  assumes "scheduled_at b = Some at" and "Date_parse rt at = None"
  shows "fst (post_confirm rt between d sub b) = d \<and>
         snd (post_confirm rt between d sub b) =
           bad_request (if truthy (session_id b) \<and> at \<noteq> []
                        then ''scheduled_at must be ISO8601''
                        else ''missing session_id or scheduled_at'')"
  using assms by (simp add: post_confirm_def truthy_def)

section \<open>The claims\<close>

text \<open>
  C1, what the code does where the claim asks for the 409.  A confirm call passes the
  conflict check (no confirmed appointment at \<^verbatim>\<open>scheduled_at\<close> when the \<^verbatim>\<open>SELECT\<close> runs),
  another request books the slot, and the \<^verbatim>\<open>INSERT\<close> raises the unique violation of
  \<^verbatim>\<open>uniq_appointments_time\<close>.  The violation reaches the handler's outer \<^verbatim>\<open>catch\<close>, and the
  answer is the 500 \<^verbatim>\<open>server_error\<close>, where the same handler answers 409 \<^verbatim>\<open>conflict\<close> when
  its \<^verbatim>\<open>SELECT\<close> sees the booked slot.  The call writes no appointment row and no
  transcript row.
\<close>

theorem racing_insert_is_server_error:
  assumes "session_id b = Some tok" and "tok \<noteq> []"
    and "scheduled_at b = Some at" and "at \<noteq> []"
    and "Date_parse rt at \<noteq> None" and "confirm b = Some True"
    and "upsertUser d (js_or_str sub ''user_1'') = (d1, userId)"
    and "ensureSession d1 userId (Some tok) = Inr (d2, sid)"
    and "select_conflict rt d2 at = Inr 0"
    and "insert_appointment rt (between d2) userId at = (d3, Inl unique_violation)"
  shows "post_confirm rt between d sub b = (d3, server_error) \<and>
         server_error \<noteq> conflict \<and>
         appointments d3 = appointments (between d2) \<and>
         chat_messages d3 = chat_messages (between d2)"
proof -
  from assms obtain ms where ms: "Date_parse rt at = Some ms" by auto
  have t: "truthy (session_id b)" using assms by (simp add: truthy_def)
  have s: "ensureSession d1 userId (session_id b) = Inr (d2, sid)" using assms by simp
  have "post_confirm rt between d sub b = (d3, server_error)"
    using post_confirm_checked[OF t assms(3,4) ms assms(7) s] assms(6,9,10) by simp
  moreover have "appointments d3 = appointments (between d2) \<and>
         chat_messages d3 = chat_messages (between d2)"
    using assms(10) by (auto simp: insert_appointment_def Let_def split: option.splits if_splits)
  moreover have "server_error \<noteq> conflict"
    by (simp add: server_error_def conflict_def)
  ultimately show ?thesis by simp
qed

theorem racing_insert_is_server_error_witness:
  "session_id confirm_request = Some ''tok'' \<and> ''tok'' \<noteq> [] \<and>
   scheduled_at confirm_request = Some ''2025-06-02T10:00:00Z'' \<and>
   ''2025-06-02T10:00:00Z'' \<noteq> [] \<and>
   Date_parse demo_runtime ''2025-06-02T10:00:00Z'' \<noteq> None \<and>
   confirm confirm_request = Some True \<and>
   upsertUser fresh_db (js_or_str (Some ''user_1'') ''user_1'') =
     (fst (upsertUser fresh_db ''user_1''), 1) \<and>
   ensureSession (fst (upsertUser fresh_db ''user_1'')) 1 (Some ''tok'') =
     Inr (user1_db, Some 1) \<and>
   select_conflict demo_runtime user1_db ''2025-06-02T10:00:00Z'' = Inr 0 \<and>
   insert_appointment demo_runtime (rival_booking user1_db) 1 ''2025-06-02T10:00:00Z'' =
     (raced_db, Inl unique_violation) \<and>
   post_confirm demo_runtime rival_booking fresh_db (Some ''user_1'') confirm_request =
     (raced_db, (500, failure ''server_error'' ''failed to confirm appointment'')) \<and>
   appointments raced_db = appointments (rival_booking user1_db) \<and>
   chat_messages raced_db = chat_messages (rival_booking user1_db)"
proof -
  have 1: "session_id confirm_request = Some ''tok''"
    and 2: "scheduled_at confirm_request = Some ''2025-06-02T10:00:00Z''"
    and 3: "confirm confirm_request = Some True"
    by (simp_all add: confirm_request_def)
  have 4: "Date_parse demo_runtime ''2025-06-02T10:00:00Z'' \<noteq> None"
    by (simp add: demo_runtime_def demo_Date_parse_def)
  have 5: "upsertUser fresh_db (js_or_str (Some ''user_1'') ''user_1'') =
     (fst (upsertUser fresh_db ''user_1''), 1)"
    by (simp add: upsertUser_def fresh_db_def js_or_str_def)
  have 6: "ensureSession (fst (upsertUser fresh_db ''user_1'')) 1 (Some ''tok'') =
     Inr (user1_db, Some 1)"
    by (simp add: upsertUser_def ensureSession_def pg_text_def fresh_db_def user1_db_def)
  have 7: "select_conflict demo_runtime user1_db ''2025-06-02T10:00:00Z'' = Inr 0"
    by (simp add: select_conflict_def demo_runtime_def demo_pg_timestamp_def user1_db_def)
  have 8: "insert_appointment demo_runtime (rival_booking user1_db) 1 ''2025-06-02T10:00:00Z'' =
     (raced_db, Inl unique_violation)"
    by (simp add: insert_appointment_def rival_booking_def demo_runtime_def
        demo_pg_timestamp_def user1_db_def raced_db_def Let_def)
  have "''tok'' \<noteq> []" and "''2025-06-02T10:00:00Z'' \<noteq> []" by simp_all
  with 1 2 3 4 5 6 7 8
    racing_insert_is_server_error[where between = rival_booking, OF 1 _ 2 _ 4 3 5 6 7 8]
  show ?thesis by (simp add: server_error_def)
qed









text \<open>
  C5, what the code does where the claim asks for a validation error and no write.  The
  handler validates \<^verbatim>\<open>scheduled_at\<close> with \<^verbatim>\<open>Date.parse\<close> (its comment: \<^verbatim>\<open>Validate scheduled_at\<close>,
  its message: \<^verbatim>\<open>scheduled_at must be ISO8601\<close>).  A \<^verbatim>\<open>scheduled_at\<close> that \<^verbatim>\<open>Date.parse\<close> lets
  through and that is no timestamp for the storage passes this check; the handler then
  writes the user row and the session row, the conflict \<^verbatim>\<open>SELECT\<close> raises, and the answer
  is the 500 \<^verbatim>\<open>server_error\<close>.
\<close>

theorem unvalidated_timestamp_is_server_error:
  assumes "session_id b = Some tok" and "tok \<noteq> []"
    and "scheduled_at b = Some at" and "at \<noteq> []"
    and "Date_parse rt at \<noteq> None" and "pg_timestamp rt at = None"
    and "confirm b = Some True"
    and "upsertUser d (js_or_str sub ''user_1'') = (d1, userId)"
    and "ensureSession d1 userId (Some tok) = Inr (d2, sid)"
  shows "post_confirm rt between d sub b = (d2, server_error) \<and> d2 \<noteq> d \<and>
         (\<exists>r \<in> set (users d2).
            u_email r = js_or_str sub ''user_1'' @ ''@demo.local'' \<and> u_id r = userId) \<and>
         (\<exists>s \<in> set (chat_sessions d2). s_session_token s = tok \<and> sid = Some (s_id s))"
proof -
  from assms obtain ms where ms: "Date_parse rt at = Some ms" by auto
  have t: "truthy (session_id b)" using assms by (simp add: truthy_def)
  have s: "ensureSession d1 userId (session_id b) = Inr (d2, sid)" using assms by simp
  have "select_conflict rt d2 at = Inl invalid_datetime_format"
    using assms(6) by (simp add: select_conflict_def)
  then have "post_confirm rt between d sub b = (d2, server_error)"
    using post_confirm_checked[OF t assms(3,4) ms assms(8) s] assms(7) by simp
  moreover have "d2 \<noteq> d"
    using checked_frame(3)[OF assms(8,9)] by auto
  ultimately show ?thesis
    using checked_rows[OF assms(8,9,2)] by simp
qed

theorem unvalidated_timestamp_is_server_error_witness:
  "session_id february_30_request = Some ''tok'' \<and> ''tok'' \<noteq> [] \<and>
   scheduled_at february_30_request = Some ''2025-02-30T10:00:00Z'' \<and>
   ''2025-02-30T10:00:00Z'' \<noteq> [] \<and>
   Date_parse lenient_runtime ''2025-02-30T10:00:00Z'' \<noteq> None \<and>
   pg_timestamp lenient_runtime ''2025-02-30T10:00:00Z'' = None \<and>
   confirm february_30_request = Some True \<and>
   upsertUser fresh_db (js_or_str (Some ''user_1'') ''user_1'') =
     (fst (upsertUser fresh_db ''user_1''), 1) \<and>
   ensureSession (fst (upsertUser fresh_db ''user_1'')) 1 (Some ''tok'') =
     Inr (user1_db, Some 1) \<and>
   post_confirm lenient_runtime id fresh_db (Some ''user_1'') february_30_request =
     (user1_db, (500, failure ''server_error'' ''failed to confirm appointment'')) \<and>
   user1_db \<noteq> fresh_db \<and>
   users fresh_db = [] \<and> chat_sessions fresh_db = [] \<and>
   users user1_db =
     [\<lparr>u_id = 1, u_email = ''user_1@demo.local'', u_password_hash = ''hash_demo'',
       u_name = ''Demo User''\<rparr>] \<and>
   chat_sessions user1_db = [\<lparr>s_id = 1, s_user_id = 1, s_session_token = ''tok''\<rparr>]"
proof -
  have 1: "session_id february_30_request = Some ''tok''"
    and 2: "scheduled_at february_30_request = Some ''2025-02-30T10:00:00Z''"
    and 3: "confirm february_30_request = Some True"
    by (simp_all add: february_30_request_def)
  have 4: "Date_parse lenient_runtime ''2025-02-30T10:00:00Z'' \<noteq> None"
    and 5: "pg_timestamp lenient_runtime ''2025-02-30T10:00:00Z'' = None"
    by (simp_all add: lenient_runtime_def lenient_Date_parse_def strict_pg_timestamp_def)
  have 6: "upsertUser fresh_db (js_or_str (Some ''user_1'') ''user_1'') =
     (fst (upsertUser fresh_db ''user_1''), 1)"
    by (simp add: upsertUser_def fresh_db_def js_or_str_def)
  have 7: "ensureSession (fst (upsertUser fresh_db ''user_1'')) 1 (Some ''tok'') =
     Inr (user1_db, Some 1)"
    by (simp add: upsertUser_def ensureSession_def pg_text_def fresh_db_def user1_db_def)
  have 8: "''tok'' \<noteq> []" and 9: "''2025-02-30T10:00:00Z'' \<noteq> []" by simp_all
  have 10: "users fresh_db = [] \<and> chat_sessions fresh_db = [] \<and>
     users user1_db =
       [\<lparr>u_id = 1, u_email = ''user_1@demo.local'', u_password_hash = ''hash_demo'',
         u_name = ''Demo User''\<rparr>] \<and>
     chat_sessions user1_db = [\<lparr>s_id = 1, s_user_id = 1, s_session_token = ''tok''\<rparr>]"
    by (simp add: fresh_db_def user1_db_def)
  from 1 2 3 4 5 6 7 8 9 10
    unvalidated_timestamp_is_server_error[OF 1 8 2 9 4 5 3 6 7, where between = id]
  show ?thesis by (simp add: server_error_def)
qed

text \<open>
  C6.  A message call whose \<^verbatim>\<open>message\<close> is absent or empty is answered with the 400
  \<^verbatim>\<open>missing message\<close> and the database is untouched: no user, session or message row is
  created or changed.
\<close>

theorem message_missing_rejected:
  "\<not> truthy (message b) \<Longrightarrow>
     post_message rt d sub b = (d, (400, error_only ''missing message''))"
  by (simp add: post_message_def truthy_def split: option.splits)

theorem message_missing_rejected_witness:
  "\<not> truthy (message (hello_request\<lparr>message := Some ''''\<rparr>)) \<and>
   post_message demo_runtime alice_db (Some ''alice'') (hello_request\<lparr>message := Some ''''\<rparr>) =
     (alice_db, (400, error_only ''missing message''))"
  using message_missing_rejected[of "hello_request\<lparr>message := Some ''''\<rparr>" demo_runtime alice_db "Some ''alice''"]
  by (simp add: truthy_def hello_request_def)



text \<open>
  C8, as the code has it.  \<^verbatim>\<open>ensureSession\<close> looks a token up by the token alone.  When a
  session row with the token exists, whichever user it is bound to, a call for any user
  returns the id of that row and changes nothing: the token is not rejected, no new row
  is created, and the row stays bound to its first user.  (The storage holds no token
  it would refuse as text; for such a token the lookup raises, and no row is created
  either.)
\<close>

theorem ensureSession_reuses_token:
  assumes "find (\<lambda>s. s_session_token s = t) (chat_sessions d) = Some s0" and "t \<noteq> []"
  shows "ensureSession d userB (Some t) =
           (if pg_text t then Inr (d, Some (s_id s0)) else Inl invalid_byte_sequence)"
  using assms by (simp add: ensureSession_def)

theorem ensureSession_reuses_token_witness:
  "find (\<lambda>s. s_session_token s = ''tok'') (chat_sessions alice_db) =
     Some \<lparr>s_id = 1, s_user_id = 1, s_session_token = ''tok''\<rparr> \<and>
   ''tok'' \<noteq> [] \<and> pg_text ''tok'' \<and>
   ensureSession alice_db 2 (Some ''tok'') =
     Inr (alice_db, Some (s_id \<lparr>s_id = 1, s_user_id = 1, s_session_token = ''tok''\<rparr>))"
  using ensureSession_reuses_token[of "''tok''" alice_db
      "\<lparr>s_id = 1, s_user_id = 1, s_session_token = ''tok''\<rparr>" 2]
  by (simp add: alice_db_def pg_text_def)

text \<open>
  The claim as the specification words it fails: user 2 presents the token of user 1's
  session; the call returns that session and the table still has the one row of user 1.
\<close>

theorem ensureSession_fresh_row_counterexample:
  "ensureSession alice_db 2 (Some ''tok'') = Inr (alice_db, Some 1) \<and>
   map s_user_id (chat_sessions alice_db) = [1]"
  by (simp add: ensureSession_def pg_text_def alice_db_def)



text \<open>
  C10.  A call of the confirm endpoint without \<^verbatim>\<open>session_id\<close> or without
  \<^verbatim>\<open>scheduled_at\<close> is answered with the 400 \<^verbatim>\<open>bad_request\<close> before any statement runs,
  whatever \<^verbatim>\<open>confirm\<close> says: the database is untouched.
\<close>

theorem confirm_missing_fields:
  "\<not> truthy (session_id b) \<or> \<not> truthy (scheduled_at b) \<Longrightarrow>
     post_confirm rt between d sub b = (d, bad_request ''missing session_id or scheduled_at'')"
  by (simp add: post_confirm_def)

theorem confirm_missing_fields_witness:
  "\<not> truthy (session_id (confirm_request\<lparr>session_id := None\<rparr>)) \<and>
   post_confirm demo_runtime id alice_db (Some ''alice'') (confirm_request\<lparr>session_id := None\<rparr>) =
     (alice_db, bad_request ''missing session_id or scheduled_at'')"
  using confirm_missing_fields[of "confirm_request\<lparr>session_id := None\<rparr>" demo_runtime id alice_db "Some ''alice''"]
  by (simp add: truthy_def confirm_request_def)

end
